theory Spec2Isabelle
  imports Main "HOL-Library.Word"
begin

section \<open>The sketch \<^verbatim>\<open>jarvis.ino\<close> as state-passing functions\<close>

text \<open>
  The sketch drives an L298N H-bridge and an SSD1306 display from single serial bytes.
  Its globals become the fields of a record; every call into the Arduino core or the
  display library (\<^verbatim>\<open>digitalWrite\<close>, \<^verbatim>\<open>analogWrite\<close>, \<^verbatim>\<open>Serial.println\<close>,
  \<^verbatim>\<open>display.fillRect\<close>, ...) is a value of the type \<open>call\<close>, performed on the state in
  program order and appended to the log \<open>calls\<close>. The value \<^verbatim>\<open>millis()\<close> returns and
  the result of \<^verbatim>\<open>display.begin\<close> come from outside and are parameters.
\<close>

subsection \<open>Data\<close>

datatype level = LOW | HIGH

datatype FaceMode = FACE_BLINK | FACE_THINK

datatype colour = SSD1306_WHITE

text \<open>\<^verbatim>\<open>unsigned long\<close> on the boards the sketch names (Uno, Nano, Mega) has 32 bits.\<close>

type_synonym ulong = "32 word"

datatype call =
    Serial_begin nat
  | Serial_println string
  | pinMode_OUTPUT nat
  | analogWrite nat nat
  | digitalWrite nat level
  | display_begin
  | clearDisplay
  | fillRect int int int int colour
  | fillCircle int int int colour
  | display_display

text \<open>Lines 2 to 8: the pins of the motor driver.\<close>

definition ENA :: nat where "ENA = 5"
definition IN1 :: nat where "IN1 = 7"
definition IN2 :: nat where "IN2 = 8"
definition ENB :: nat where "ENB = 6"
definition IN3 :: nat where "IN3 = 9"
definition IN4 :: nat where "IN4 = 10"

text \<open>Lines 32 and 33.\<close>

definition BLINK_OPEN_DURATION :: ulong where "BLINK_OPEN_DURATION = 3000"
definition BLINK_CLOSED_DURATION :: ulong where "BLINK_CLOSED_DURATION = 200"

text \<open>
  The globals \<open>currentFace\<close>, \<open>blinkOpen\<close> and \<open>lastBlinkChange\<close>; the level each
  digital pin was last written and the duty each PWM pin was last given; the bytes
  waiting in the serial receive buffer, oldest first; and the log of calls.
\<close>

record state =
  currentFace :: FaceMode
  blinkOpen :: bool
  lastBlinkChange :: ulong
  digital :: "nat \<Rightarrow> level"
  pwm :: "nat \<Rightarrow> nat"
  rx :: "char list"
  calls :: "call list"

subsection \<open>Performing calls\<close>

fun perform :: "call \<Rightarrow> state \<Rightarrow> state" where
  "perform (digitalWrite p v) s =
     s\<lparr>digital := (digital s)(p := v), calls := calls s @ [digitalWrite p v]\<rparr>"
| "perform (analogWrite p v) s =
     s\<lparr>pwm := (pwm s)(p := v), calls := calls s @ [analogWrite p v]\<rparr>"
| "perform c s = s\<lparr>calls := calls s @ [c]\<rparr>"

text \<open>A straight-line block of calls, performed first to last.\<close>

definition exec :: "call list \<Rightarrow> state \<Rightarrow> state" where
  "exec cs s = fold perform cs s"

subsection \<open>Motor functions (lines 141 to 209)\<close>

text \<open>
  The messages are byte strings; the bytes above 127 are the UTF-8 encoding of the
  arrows and emoji of the source.
\<close>

definition forward_body :: "call list" where
  "forward_body =
     [Serial_println (''Forward '' @ [CHR 0xE2, CHR 0x9E, CHR 0xA1, CHR 0xEF, CHR 0xB8, CHR 0x8F]),
      analogWrite ENA 200,
      analogWrite ENB 200,
      digitalWrite IN1 HIGH,
      digitalWrite IN2 LOW,
      digitalWrite IN3 HIGH,
      digitalWrite IN4 LOW]"

definition forward :: "state \<Rightarrow> state" where
  "forward s = exec forward_body s"

definition backward_body :: "call list" where
  "backward_body =
     [Serial_println (''Backward '' @ [CHR 0xE2, CHR 0xAC, CHR 0x85, CHR 0xEF, CHR 0xB8, CHR 0x8F]),
      analogWrite ENA 200,
      analogWrite ENB 200,
      digitalWrite IN1 LOW,
      digitalWrite IN2 HIGH,
      digitalWrite IN3 LOW,
      digitalWrite IN4 HIGH]"

definition backward :: "state \<Rightarrow> state" where
  "backward s = exec backward_body s"

definition leftTurn_body :: "call list" where
  "leftTurn_body =
     [Serial_println (''Left '' @ [CHR 0xE2, CHR 0x86, CHR 0xAA, CHR 0xEF, CHR 0xB8, CHR 0x8F]),
      analogWrite ENA 180,
      analogWrite ENB 180,
      digitalWrite IN1 LOW,
      digitalWrite IN2 HIGH,
      digitalWrite IN3 HIGH,
      digitalWrite IN4 LOW]"

definition leftTurn :: "state \<Rightarrow> state" where
  "leftTurn s = exec leftTurn_body s"

definition rightTurn_body :: "call list" where
  "rightTurn_body =
     [Serial_println (''Right '' @ [CHR 0xE2, CHR 0x86, CHR 0xA9, CHR 0xEF, CHR 0xB8, CHR 0x8F]),
      analogWrite ENA 180,
      analogWrite ENB 180,
      digitalWrite IN1 HIGH,
      digitalWrite IN2 LOW,
      digitalWrite IN3 LOW,
      digitalWrite IN4 HIGH]"

definition rightTurn :: "state \<Rightarrow> state" where
  "rightTurn s = exec rightTurn_body s"

definition stopMotors_body :: "call list" where
  "stopMotors_body =
     [Serial_println (''Stop '' @ [CHR 0xF0, CHR 0x9F, CHR 0x9B, CHR 0x91]),
      analogWrite ENA 0,
      analogWrite ENB 0,
      digitalWrite IN1 LOW,
      digitalWrite IN2 LOW,
      digitalWrite IN3 LOW,
      digitalWrite IN4 LOW]"

definition stopMotors :: "state \<Rightarrow> state" where
  "stopMotors s = exec stopMotors_body s"

subsection \<open>Face functions (lines 215 to 251)\<close>

definition drawBlinkFace_body :: "bool \<Rightarrow> call list" where
  "drawBlinkFace_body open =
     [clearDisplay] @
     (if open
      then [fillRect 30 20 20 20 SSD1306_WHITE, fillRect 80 20 20 20 SSD1306_WHITE]
      else [fillRect 30 27 20 6 SSD1306_WHITE, fillRect 80 27 20 6 SSD1306_WHITE]) @
     [display_display]"

definition drawBlinkFace :: "bool \<Rightarrow> state \<Rightarrow> state" where
  "drawBlinkFace open s = exec (drawBlinkFace_body open) s"

definition think_body :: "call list" where
  "think_body =
     (let dotY = 50; dotSize = 4 in
      [fillRect 30 22 16 16 SSD1306_WHITE,
       fillRect 82 22 16 16 SSD1306_WHITE,
       fillCircle 48 dotY dotSize SSD1306_WHITE,
       fillCircle 64 dotY dotSize SSD1306_WHITE,
       fillCircle 80 dotY dotSize SSD1306_WHITE,
       display_display])"

definition drawFace :: "FaceMode \<Rightarrow> state \<Rightarrow> state" where
  "drawFace mode s =
     (let s1 = perform clearDisplay s in
      if mode = FACE_BLINK then drawBlinkFace (blinkOpen s1) s1
      else if mode = FACE_THINK then exec think_body s1
      else s1)"

subsection \<open>\<^verbatim>\<open>loop\<close> (lines 75 to 135)\<close>

text \<open>
  The \<^verbatim>\<open>switch\<close> of lines 80 to 121 on the byte read; \<open>now\<close> is what \<^verbatim>\<open>millis()\<close>
  returns at line 107.
\<close>

definition dispatch :: "char \<Rightarrow> ulong \<Rightarrow> state \<Rightarrow> state" where
  "dispatch cmd now s =
     (if cmd = CHR ''B'' then forward s
      else if cmd = CHR ''F'' then backward s
      else if cmd = CHR ''R'' then leftTurn s
      else if cmd = CHR ''L'' then rightTurn s
      else if cmd = CHR ''S'' then stopMotors s
      else if cmd = CHR ''O'' then
        (let s1 = s\<lparr>currentFace := FACE_BLINK, blinkOpen := True, lastBlinkChange := now\<rparr>;
             s2 = drawFace (currentFace s1) s1
         in perform (Serial_println (''Face '' @ [CHR 0xE2, CHR 0x86, CHR 0x92] @ '' Blinking '' @
              [CHR 0xF0, CHR 0x9F, CHR 0x91, CHR 0x80, CHR 0xE2, CHR 0x9C, CHR 0xA8])) s2)
      else if cmd = CHR ''T'' then
        (let s1 = s\<lparr>currentFace := FACE_THINK\<rparr>;
             s2 = drawFace (currentFace s1) s1
         in perform (Serial_println (''Face '' @ [CHR 0xE2, CHR 0x86, CHR 0x92] @ '' Thinking '' @
              [CHR 0xF0, CHR 0x9F, CHR 0xA4, CHR 0x94])) s2)
      else perform (Serial_println (''Unknown command '' @ [CHR 0xF0, CHR 0x9F, CHR 0x98, CHR 0x85] @
              '' (F B L R S | O T)'')) s)"

text \<open>
  Lines 77 and 78: \<^verbatim>\<open>Serial.available()\<close> is the number of waiting bytes and
  \<^verbatim>\<open>Serial.read()\<close> takes the oldest one.
\<close>

definition handle_serial :: "ulong \<Rightarrow> state \<Rightarrow> state" where
  "handle_serial now s =
     (case rx s of
        [] \<Rightarrow> s
      | cmd # rest \<Rightarrow> dispatch cmd now (s\<lparr>rx := rest\<rparr>))"

text \<open>Lines 124 to 134; \<open>now\<close> is what \<^verbatim>\<open>millis()\<close> returns at line 126.\<close>

definition blinking_logic :: "ulong \<Rightarrow> state \<Rightarrow> state" where
  "blinking_logic now s =
     (if currentFace s = FACE_BLINK then
        (let interval = (if blinkOpen s then BLINK_OPEN_DURATION else BLINK_CLOSED_DURATION) in
         if now - lastBlinkChange s \<ge> interval then
           (let s1 = s\<lparr>blinkOpen := \<not> blinkOpen s, lastBlinkChange := now\<rparr>
            in drawBlinkFace (blinkOpen s1) s1)
         else s)
      else s)"

text \<open>One iteration, given the two clock readings it may take.\<close>

definition loop :: "ulong \<Rightarrow> ulong \<Rightarrow> state \<Rightarrow> state" where
  "loop now_cmd now_blink s = blinking_logic now_blink (handle_serial now_cmd s)"

subsection \<open>\<^verbatim>\<open>setup\<close> (lines 44 to 73)\<close>

text \<open>
  Line 61, \<^verbatim>\<open>for (;;);\<close>: a loop with an empty body and no exit. As a function of
  the state it is entered in, it is \<open>None\<close> when it never returns.
\<close>

partial_function (option) spin :: "state \<Rightarrow> state option" where
  "spin s = spin s"

text \<open>
  How a call of a function of the sketch ends: it returns in a state, or it hangs, and
  then the state it hangs in is the state of the machine from then on. The loop of line
  61 hangs in the state it is entered in, since it never returns and its body is empty.
\<close>

datatype outcome = Returns state | Hangs state

definition loop_forever :: "state \<Rightarrow> outcome" where
  "loop_forever s = (case spin s of None \<Rightarrow> Hangs s | Some s' \<Rightarrow> Returns s')"

fun returned :: "outcome \<Rightarrow> state option" where
  "returned (Returns s) = Some s"
| "returned (Hangs h) = None"

fun hung :: "outcome \<Rightarrow> state option" where
  "hung (Returns s) = None"
| "hung (Hangs h) = Some h"

text \<open>Lines 45 to 56: the serial port, the pin modes and \<^verbatim>\<open>stopMotors()\<close>.\<close>

definition setup_motors :: "state \<Rightarrow> state" where
  "setup_motors s =
     stopMotors
       (exec [Serial_begin 9600,
              pinMode_OUTPUT ENA, pinMode_OUTPUT IN1, pinMode_OUTPUT IN2,
              pinMode_OUTPUT ENB, pinMode_OUTPUT IN3, pinMode_OUTPUT IN4] s)"

text \<open>
  The whole of \<^verbatim>\<open>setup\<close> (named \<open>setup_sketch\<close> here, \<open>setup\<close> being a keyword):
  \<open>began\<close> is what \<^verbatim>\<open>display.begin\<close> returns at line 59 and \<open>now\<close> what
  \<^verbatim>\<open>millis()\<close> returns at line 67. Lines 59 to 62 print and enter the loop of line
  61 when the display did not begin; lines 63 to 72 run after them if they are left.
\<close>

definition setup_sketch :: "bool \<Rightarrow> ulong \<Rightarrow> state \<Rightarrow> outcome" where
  "setup_sketch began now s =
     (let s1 = perform display_begin (setup_motors s);
          oled_init =
            (if \<not> began then
               (let s2 = perform (Serial_println (''SSD1306 failed '' @
                            [CHR 0xF0, CHR 0x9F, CHR 0x98, CHR 0xB5])) s1
                in loop_forever s2)
             else Returns s1)
      in case oled_init of
           Hangs h \<Rightarrow> Hangs h
         | Returns s2 \<Rightarrow>
             (let s3 = perform clearDisplay s2;
                  s4 = s3\<lparr>currentFace := FACE_BLINK, blinkOpen := True, lastBlinkChange := now\<rparr>;
                  s5 = drawFace (currentFace s4) s4
              in Returns
                   (exec [Serial_println ([CHR 0xF0, CHR 0x9F, CHR 0xA4, CHR 0x96] @ '' READY!''),
                          Serial_println ''Motor controls: F B L R S'',
                          Serial_println ''Face controls: O (blink), T (think)''] s5)))"

subsection \<open>The sketch as the Arduino core runs it\<close>

text \<open>
  The globals as their initialisers leave them (lines 26 to 30), every pin low, no duty,
  nothing received and nothing called yet.
\<close>

definition power_on :: state where
  "power_on =
     \<lparr>currentFace = FACE_BLINK, blinkOpen = True, lastBlinkChange = 0,
      digital = (\<lambda>_. LOW), pwm = (\<lambda>_. 0), rx = [], calls = []\<rparr>"

text \<open>
  The Arduino core, which is not part of the sketch, calls \<^verbatim>\<open>setup()\<close> once and then
  \<^verbatim>\<open>loop()\<close> again and again. An iteration is given the bytes that arrived since the
  last one and its two clock readings; \<open>sketch\<close> is the state after the iterations
  listed, and \<open>None\<close> when they are never reached because \<^verbatim>\<open>setup()\<close> hangs.
\<close>

fun iterate :: "(char list \<times> ulong \<times> ulong) list \<Rightarrow> state \<Rightarrow> state" where
  "iterate [] s = s"
| "iterate ((bytes, now_cmd, now_blink) # rest) s =
     iterate rest (loop now_cmd now_blink (s\<lparr>rx := rx s @ bytes\<rparr>))"

definition sketch ::
  "bool \<Rightarrow> ulong \<Rightarrow> (char list \<times> ulong \<times> ulong) list \<Rightarrow> state \<Rightarrow> state option" where
  "sketch began now iters s =
     (case setup_sketch began now s of
        Hangs h \<Rightarrow> None
      | Returns s' \<Rightarrow> Some (iterate iters s'))"

text \<open>
  The states a straight-line block passes through, from before its first call to after
  its last.
\<close>

definition during :: "call list \<Rightarrow> state \<Rightarrow> state list" where
  "during body s = map (\<lambda>k. exec (take k body) s) [0..<Suc (length body)]"

subsection \<open>Reading the outputs\<close>

text \<open>
  What a side of the H-bridge is told, read from its two direction pins as the
  comments of \<^verbatim>\<open>leftTurn\<close> and \<^verbatim>\<open>rightTurn\<close> name them: first pin high and second
  low is "wheel forward", first low and second high is "wheel backward". Both low is
  what \<^verbatim>\<open>stopMotors\<close> writes. Both high is none of the three.
\<close>

datatype direction = Forward | Reverse | Neutral

definition side_direction :: "level \<Rightarrow> level \<Rightarrow> direction option" where
  "side_direction a b =
     (case (a, b) of
        (HIGH, LOW) \<Rightarrow> Some Forward
      | (LOW, HIGH) \<Rightarrow> Some Reverse
      | (LOW, LOW) \<Rightarrow> Some Neutral
      | (HIGH, HIGH) \<Rightarrow> None)"

definition left_output :: "state \<Rightarrow> direction option \<times> nat" where
  "left_output s = (side_direction (digital s IN1) (digital s IN2), pwm s ENA)"

definition right_output :: "state \<Rightarrow> direction option \<times> nat" where
  "right_output s = (side_direction (digital s IN3) (digital s IN4), pwm s ENB)"

definition pair_ok :: "level \<Rightarrow> level \<Rightarrow> bool" where
  "pair_ok a b = ((a, b) = (HIGH, LOW) \<or> (a, b) = (LOW, HIGH) \<or> (a, b) = (LOW, LOW))"

definition pins_wellformed :: "state \<Rightarrow> bool" where
  "pins_wellformed s =
     (pair_ok (digital s IN1) (digital s IN2) \<and> pair_ok (digital s IN3) (digital s IN4))"

text \<open>
  Which calls write a motor pin, which go to the display, and the width and height of
  each rectangle drawn.
\<close>

fun touches_pins :: "call \<Rightarrow> bool" where
  "touches_pins (digitalWrite p v) = True"
| "touches_pins (analogWrite p v) = True"
| "touches_pins c = False"

fun drives_display :: "call \<Rightarrow> bool" where
  "drives_display display_begin = True"
| "drives_display clearDisplay = True"
| "drives_display (fillRect x y w h c) = True"
| "drives_display (fillCircle x y r c) = True"
| "drives_display display_display = True"
| "drives_display c = False"

fun rect_sizes :: "call list \<Rightarrow> (int \<times> int) list" where
  "rect_sizes [] = []"
| "rect_sizes (fillRect x y w h c # cs) = (w, h) # rect_sizes cs"
| "rect_sizes (c # cs) = rect_sizes cs"

section \<open>Basic facts\<close>

lemmas pin_defs = ENA_def IN1_def IN2_def ENB_def IN3_def IN4_def

lemma calls_perform [simp]: "calls (perform c s) = calls s @ [c]"
  by (cases c) simp_all

lemma currentFace_perform [simp]: "currentFace (perform c s) = currentFace s"
  by (cases c) simp_all

lemma blinkOpen_perform [simp]: "blinkOpen (perform c s) = blinkOpen s"
  by (cases c) simp_all

lemma lastBlinkChange_perform [simp]: "lastBlinkChange (perform c s) = lastBlinkChange s"
  by (cases c) simp_all

lemma rx_perform [simp]: "rx (perform c s) = rx s"
  by (cases c) simp_all

lemma exec_Nil [simp]: "exec [] s = s"
  by (simp add: exec_def)

lemma exec_Cons [simp]: "exec (c # cs) s = exec cs (perform c s)"
  by (simp add: exec_def)

lemma exec_append: "exec (xs @ ys) s = exec ys (exec xs s)"
  by (simp add: exec_def)

lemma calls_exec [simp]: "calls (exec cs s) = calls s @ cs"
  by (induction cs arbitrary: s) simp_all

lemma currentFace_exec [simp]: "currentFace (exec cs s) = currentFace s"
  by (induction cs arbitrary: s) simp_all

lemma blinkOpen_exec [simp]: "blinkOpen (exec cs s) = blinkOpen s"
  by (induction cs arbitrary: s) simp_all

lemma lastBlinkChange_exec [simp]: "lastBlinkChange (exec cs s) = lastBlinkChange s"
  by (induction cs arbitrary: s) simp_all

lemma rx_exec [simp]: "rx (exec cs s) = rx s"
  by (induction cs arbitrary: s) simp_all

subsection \<open>What each motor function writes\<close>

lemma digital_stopMotors:
  "digital (stopMotors s) = (digital s)(IN1 := LOW, IN2 := LOW, IN3 := LOW, IN4 := LOW)"
  by (simp add: stopMotors_def stopMotors_body_def)

lemma pwm_stopMotors: "pwm (stopMotors s) = (pwm s)(ENA := 0, ENB := 0)"
  by (simp add: stopMotors_def stopMotors_body_def)

lemma stop_output:
  "left_output (stopMotors s) = (Some Neutral, 0) \<and>
   right_output (stopMotors s) = (Some Neutral, 0)"
  by (simp add: left_output_def right_output_def side_direction_def
      digital_stopMotors pwm_stopMotors pin_defs)

lemma digital_forward:
  "digital (forward s) = (digital s)(IN1 := HIGH, IN2 := LOW, IN3 := HIGH, IN4 := LOW)"
  by (simp add: forward_def forward_body_def)

lemma pwm_forward: "pwm (forward s) = (pwm s)(ENA := 200, ENB := 200)"
  by (simp add: forward_def forward_body_def)

lemma digital_backward:
  "digital (backward s) = (digital s)(IN1 := LOW, IN2 := HIGH, IN3 := LOW, IN4 := HIGH)"
  by (simp add: backward_def backward_body_def)

lemma pwm_backward: "pwm (backward s) = (pwm s)(ENA := 200, ENB := 200)"
  by (simp add: backward_def backward_body_def)

lemma digital_leftTurn:
  "digital (leftTurn s) = (digital s)(IN1 := LOW, IN2 := HIGH, IN3 := HIGH, IN4 := LOW)"
  by (simp add: leftTurn_def leftTurn_body_def)

lemma pwm_leftTurn: "pwm (leftTurn s) = (pwm s)(ENA := 180, ENB := 180)"
  by (simp add: leftTurn_def leftTurn_body_def)

lemma digital_rightTurn:
  "digital (rightTurn s) = (digital s)(IN1 := HIGH, IN2 := LOW, IN3 := LOW, IN4 := HIGH)"
  by (simp add: rightTurn_def rightTurn_body_def)

lemma pwm_rightTurn: "pwm (rightTurn s) = (pwm s)(ENA := 180, ENB := 180)"
  by (simp add: rightTurn_def rightTurn_body_def)

lemmas motor_writes =
  digital_forward pwm_forward digital_backward pwm_backward digital_leftTurn pwm_leftTurn
  digital_rightTurn pwm_rightTurn digital_stopMotors pwm_stopMotors

lemmas output_defs = left_output_def right_output_def side_direction_def pin_defs

lemma motor_outputs:
  "left_output (forward s) = (Some Forward, 200)" "right_output (forward s) = (Some Forward, 200)"
  "left_output (backward s) = (Some Reverse, 200)" "right_output (backward s) = (Some Reverse, 200)"
  "left_output (leftTurn s) = (Some Reverse, 180)" "right_output (leftTurn s) = (Some Forward, 180)"
  "left_output (rightTurn s) = (Some Forward, 180)" "right_output (rightTurn s) = (Some Reverse, 180)"
  by (simp_all add: output_defs motor_writes)

subsection \<open>Redraws, the face commands and the tick\<close>

lemma drawBlinkFace_eq:
  "drawBlinkFace open s = s\<lparr>calls := calls s @ drawBlinkFace_body open\<rparr>"
  by (simp add: drawBlinkFace_def drawBlinkFace_body_def)

lemma drawFace_eq:
  "drawFace mode s =
     s\<lparr>calls := calls s @ [clearDisplay] @
        (case mode of FACE_BLINK \<Rightarrow> drawBlinkFace_body (blinkOpen s) | FACE_THINK \<Rightarrow> think_body)\<rparr>"
  by (cases mode) (simp_all add: drawFace_def drawBlinkFace_eq think_body_def Let_def)

lemma dispatch_other:
  "cmd \<notin> {CHR ''F'', CHR ''B'', CHR ''R'', CHR ''L'', CHR ''S'', CHR ''O'', CHR ''T''} \<Longrightarrow>
   dispatch cmd now s = s\<lparr>calls := calls s @ [Serial_println (''Unknown command '' @ [CHR 0xF0, CHR 0x9F, CHR 0x98, CHR 0x85] @ '' (F B L R S | O T)'')]\<rparr>"
  by (simp add: dispatch_def)

lemma dispatch_O:
  "dispatch CHR ''O'' now s =
     s\<lparr>currentFace := FACE_BLINK, blinkOpen := True, lastBlinkChange := now,
       calls := calls s @
         [clearDisplay, clearDisplay,
          fillRect 30 20 20 20 SSD1306_WHITE, fillRect 80 20 20 20 SSD1306_WHITE,
          display_display,
          Serial_println (''Face '' @ [CHR 0xE2, CHR 0x86, CHR 0x92] @ '' Blinking '' @
              [CHR 0xF0, CHR 0x9F, CHR 0x91, CHR 0x80, CHR 0xE2, CHR 0x9C, CHR 0xA8])]\<rparr>"
  by (simp add: dispatch_def drawFace_eq drawBlinkFace_body_def Let_def)

lemma dispatch_T:
  "dispatch CHR ''T'' now s =
     s\<lparr>currentFace := FACE_THINK,
       calls := calls s @
         [clearDisplay,
          fillRect 30 22 16 16 SSD1306_WHITE, fillRect 82 22 16 16 SSD1306_WHITE,
          fillCircle 48 50 4 SSD1306_WHITE, fillCircle 64 50 4 SSD1306_WHITE,
          fillCircle 80 50 4 SSD1306_WHITE,
          display_display,
          Serial_println (''Face '' @ [CHR 0xE2, CHR 0x86, CHR 0x92] @ '' Thinking '' @
              [CHR 0xF0, CHR 0x9F, CHR 0xA4, CHR 0x94])]\<rparr>"
  by (simp add: dispatch_def drawFace_eq think_body_def Let_def)

lemma blinking_logic_flip:
  "currentFace s = FACE_BLINK \<Longrightarrow>
   (if blinkOpen s then 3000 else 200) \<le> now - lastBlinkChange s \<Longrightarrow>
   blinking_logic now s =
     s\<lparr>blinkOpen := \<not> blinkOpen s, lastBlinkChange := now,
       calls := calls s @ drawBlinkFace_body (\<not> blinkOpen s)\<rparr>"
  by (cases "blinkOpen s")
    (simp_all add: blinking_logic_def BLINK_OPEN_DURATION_def BLINK_CLOSED_DURATION_def
      drawBlinkFace_eq Let_def)

lemma blinking_logic_hold:
  "currentFace s = FACE_BLINK \<Longrightarrow>
   now - lastBlinkChange s < (if blinkOpen s then 3000 else 200) \<Longrightarrow>
   blinking_logic now s = s"
  by (cases "blinkOpen s")
    (simp_all add: blinking_logic_def BLINK_OPEN_DURATION_def BLINK_CLOSED_DURATION_def
      Let_def not_le)

lemma blinking_logic_think: "currentFace s = FACE_THINK \<Longrightarrow> blinking_logic now s = s"
  by (simp add: blinking_logic_def)

subsection \<open>Startup\<close>

lemma spin_not_Some: "spin s \<noteq> Some y"
proof
  assume a: "spin s = Some y"
  show False
    by (rule spin.raw_induct [where P = "\<lambda>_ _. False", OF _ a]) blast
qed

lemma spin_None: "spin s = None"
  using spin_not_Some [of s] by (cases "spin s") auto

lemma calls_setup_motors:
  "calls (setup_motors s) =
     calls s @
       [Serial_begin 9600,
        pinMode_OUTPUT ENA, pinMode_OUTPUT IN1, pinMode_OUTPUT IN2,
        pinMode_OUTPUT ENB, pinMode_OUTPUT IN3, pinMode_OUTPUT IN4] @
       stopMotors_body"
  by (simp add: setup_motors_def stopMotors_def)

lemma loop_forever_Hangs: "loop_forever s = Hangs s"
  by (simp add: loop_forever_def spin_None)

lemma setup_sketch_failed:
  "setup_sketch False now s =
     Hangs ((setup_motors s)
       \<lparr>calls := calls (setup_motors s) @
          [display_begin,
           Serial_println (''SSD1306 failed '' @ [CHR 0xF0, CHR 0x9F, CHR 0x98, CHR 0xB5])]\<rparr>)"
  by (simp add: setup_sketch_def loop_forever_Hangs Let_def)

lemma setup_sketch_began:
  "setup_sketch True now s =
     Returns ((setup_motors s)
       \<lparr>currentFace := FACE_BLINK, blinkOpen := True, lastBlinkChange := now,
        calls := calls (setup_motors s) @
          [display_begin, clearDisplay,
           clearDisplay, clearDisplay,
           fillRect 30 20 20 20 SSD1306_WHITE, fillRect 80 20 20 20 SSD1306_WHITE,
           display_display,
           Serial_println ([CHR 0xF0, CHR 0x9F, CHR 0xA4, CHR 0x96] @ '' READY!''),
           Serial_println ''Motor controls: F B L R S'',
           Serial_println ''Face controls: O (blink), T (think)'']\<rparr>)"
  by (simp add: setup_sketch_def drawFace_eq drawBlinkFace_body_def Let_def)

lemma rx_setup_motors: "rx (setup_motors s) = rx s"
  by (simp add: setup_motors_def stopMotors_def)

lemma face_setup_motors:
  "currentFace (setup_motors s) = currentFace s"
  "blinkOpen (setup_motors s) = blinkOpen s"
  "lastBlinkChange (setup_motors s) = lastBlinkChange s"
  by (simp_all add: setup_motors_def stopMotors_def)

subsection \<open>One iteration\<close>

lemma calls_motor:
  "calls (forward s) = calls s @ forward_body"
  "calls (backward s) = calls s @ backward_body"
  "calls (leftTurn s) = calls s @ leftTurn_body"
  "calls (rightTurn s) = calls s @ rightTurn_body"
  "calls (stopMotors s) = calls s @ stopMotors_body"
  by (simp_all add: forward_def backward_def leftTurn_def rightTurn_def stopMotors_def)

lemma rx_motor:
  "rx (forward s) = rx s" "rx (backward s) = rx s" "rx (leftTurn s) = rx s"
  "rx (rightTurn s) = rx s" "rx (stopMotors s) = rx s"
  by (simp_all add: forward_def backward_def leftTurn_def rightTurn_def stopMotors_def)

lemma calls_dispatch_grows: "\<exists>d. calls (dispatch cmd now s) = calls s @ d"
proof -
  consider "cmd = CHR ''B''" | "cmd = CHR ''F''" | "cmd = CHR ''R''" | "cmd = CHR ''L''"
    | "cmd = CHR ''S''" | "cmd = CHR ''O''" | "cmd = CHR ''T''"
    | "cmd \<notin> {CHR ''F'', CHR ''B'', CHR ''R'', CHR ''L'', CHR ''S'', CHR ''O'', CHR ''T''}"
    by blast
  then show ?thesis
  proof cases
    case 6
    then show ?thesis by (simp add: dispatch_O)
  next
    case 7
    then show ?thesis by (simp add: dispatch_T)
  next
    case 8
    then show ?thesis by (simp add: dispatch_other)
  qed (simp_all add: dispatch_def calls_motor)
qed

lemma rx_dispatch: "rx (dispatch cmd now s) = rx s"
proof -
  consider "cmd = CHR ''B''" | "cmd = CHR ''F''" | "cmd = CHR ''R''" | "cmd = CHR ''L''"
    | "cmd = CHR ''S''" | "cmd = CHR ''O''" | "cmd = CHR ''T''"
    | "cmd \<notin> {CHR ''F'', CHR ''B'', CHR ''R'', CHR ''L'', CHR ''S'', CHR ''O'', CHR ''T''}"
    by blast
  then show ?thesis
  proof cases
    case 6
    then show ?thesis by (simp add: dispatch_O)
  next
    case 7
    then show ?thesis by (simp add: dispatch_T)
  next
    case 8
    then show ?thesis by (simp add: dispatch_other)
  qed (simp_all add: dispatch_def rx_motor)
qed

lemma blinking_logic_cases:
  "blinking_logic now s = s \<or>
   blinking_logic now s =
     s\<lparr>blinkOpen := \<not> blinkOpen s, lastBlinkChange := now,
       calls := calls s @ drawBlinkFace_body (\<not> blinkOpen s)\<rparr>"
  by (simp add: blinking_logic_def drawBlinkFace_eq Let_def)

lemma rx_blinking_logic: "rx (blinking_logic now s) = rx s"
  using blinking_logic_cases [of now s] by auto

lemma digital_blinking_logic: "digital (blinking_logic now s) = digital s"
  using blinking_logic_cases [of now s] by auto

lemma pwm_blinking_logic: "pwm (blinking_logic now s) = pwm s"
  using blinking_logic_cases [of now s] by auto

lemma calls_blinking_logic_grows: "\<exists>p. calls (blinking_logic now s) = calls s @ p"
  using blinking_logic_cases [of now s] by auto

lemma handle_serial_Nil: "rx s = [] \<Longrightarrow> handle_serial now s = s"
  by (simp add: handle_serial_def)

lemma handle_serial_Cons:
  "rx s = cmd # rest \<Longrightarrow> handle_serial now s = dispatch cmd now (s\<lparr>rx := rest\<rparr>)"
  by (simp add: handle_serial_def)

lemma rx_handle_serial: "rx (handle_serial now s) = tl (rx s)"
  by (cases "rx s") (simp_all add: handle_serial_def rx_dispatch)

lemma rx_loop: "rx (loop now_cmd now_blink s) = tl (rx s)"
  by (simp add: loop_def rx_blinking_logic rx_handle_serial)

lemma calls_handle_serial_grows: "\<exists>d. calls (handle_serial now s) = calls s @ d"
proof (cases "rx s")
  case Nil
  then show ?thesis by (simp add: handle_serial_def)
next
  case (Cons cmd rest)
  then show ?thesis
    using calls_dispatch_grows [of cmd now "s\<lparr>rx := rest\<rparr>"] by (simp add: handle_serial_def)
qed

lemma rx_iterate_quiet:
  "rx (iterate (map (\<lambda>clocks. ([], clocks)) ts) s) =
     drop (length ts) (rx s)"
proof (induction ts arbitrary: s)
  case Nil
  show ?case by simp
next
  case (Cons t ts)
  obtain a b where t: "t = (a, b)" by (cases t)
  show ?case
    using Cons.IH [of "loop a b s"] by (simp add: t rx_loop drop_Suc)
qed

subsection \<open>Rectangles drawn\<close>

lemma rect_sizes_append: "rect_sizes (xs @ ys) = rect_sizes xs @ rect_sizes ys"
  by (induction xs rule: rect_sizes.induct) simp_all

subsection \<open>The direction pins between calls\<close>

lemma motor_wellformed:
  "f \<in> {forward, backward, leftTurn, rightTurn, stopMotors} \<Longrightarrow> pins_wellformed (f s)"
  by (auto simp add: pins_wellformed_def pair_ok_def motor_writes pin_defs)

lemma digital_dispatch_face:
  "digital (dispatch CHR ''O'' now s) = digital s" "digital (dispatch CHR ''T'' now s) = digital s"
  by (simp_all add: dispatch_O dispatch_T)

lemma dispatch_wellformed:
  assumes "pins_wellformed s"
  shows "pins_wellformed (dispatch cmd now s)"
proof -
  consider "cmd = CHR ''B''" | "cmd = CHR ''F''" | "cmd = CHR ''R''" | "cmd = CHR ''L''"
    | "cmd = CHR ''S''" | "cmd = CHR ''O''" | "cmd = CHR ''T''"
    | "cmd \<notin> {CHR ''F'', CHR ''B'', CHR ''R'', CHR ''L'', CHR ''S'', CHR ''O'', CHR ''T''}"
    by blast
  then show ?thesis
  proof cases
    case 6
    then show ?thesis using assms by (simp add: pins_wellformed_def digital_dispatch_face)
  next
    case 7
    then show ?thesis using assms by (simp add: pins_wellformed_def digital_dispatch_face)
  next
    case 8
    then show ?thesis using assms by (simp add: pins_wellformed_def dispatch_other)
  qed (simp_all add: dispatch_def motor_wellformed)
qed

lemma loop_wellformed:
  assumes "pins_wellformed s"
  shows "pins_wellformed (loop now_cmd now_blink s)"
proof -
  have "pins_wellformed (handle_serial now_cmd s)"
  proof (cases "rx s")
    case Nil
    then show ?thesis using assms by (simp add: handle_serial_def)
  next
    case (Cons cmd rest)
    have "pins_wellformed (s\<lparr>rx := rest\<rparr>)"
      using assms by (simp add: pins_wellformed_def)
    then show ?thesis
      using Cons by (simp add: handle_serial_def dispatch_wellformed)
  qed
  then show ?thesis
    by (simp add: loop_def pins_wellformed_def digital_blinking_logic)
qed

lemma iterate_wellformed: "pins_wellformed s \<Longrightarrow> pins_wellformed (iterate iters s)"
proof (induction iters arbitrary: s)
  case Nil
  then show ?case by simp
next
  case (Cons i iters)
  obtain bytes a b where i: "i = (bytes, a, b)" by (cases i)
  have "pins_wellformed (s\<lparr>rx := rx s @ bytes\<rparr>)"
    using Cons.prems by (simp add: pins_wellformed_def)
  then have "pins_wellformed (loop a b (s\<lparr>rx := rx s @ bytes\<rparr>))"
    by (rule loop_wellformed)
  then show ?case
    using Cons.IH by (simp add: i)
qed

lemma sketch_wellformed:
  assumes "sketch True now iters s0 = Some s"
  shows "pins_wellformed s"
proof -
  have "pins_wellformed (setup_motors s0)"
    by (simp add: setup_motors_def motor_wellformed)
  then obtain s1 where s1: "setup_sketch True now s0 = Returns s1" "pins_wellformed s1"
    by (simp add: setup_sketch_began pins_wellformed_def)
  with assms have "s = iterate iters s1"
    by (simp add: sketch_def)
  with s1 show ?thesis by (simp add: iterate_wellformed)
qed

lemma fold_motor_wellformed:
  "set fs \<subseteq> {forward, backward, leftTurn, rightTurn, stopMotors} \<Longrightarrow>
   pins_wellformed s \<Longrightarrow> pins_wellformed (fold (\<lambda>f. f) fs s)"
proof (induction fs arbitrary: s)
  case Nil
  then show ?case by simp
next
  case (Cons f fs)
  from Cons.prems have "f \<in> {forward, backward, leftTurn, rightTurn, stopMotors}"
    by simp
  then have "pins_wellformed (f s)" by (rule motor_wellformed)
  with Cons show ?case by simp
qed

lemma wellformed_direction:
  "pins_wellformed s \<Longrightarrow>
   fst (left_output s) \<in> {Some Forward, Some Reverse, Some Neutral} \<and>
   fst (right_output s) \<in> {Some Forward, Some Reverse, Some Neutral}"
  by (auto simp add: pins_wellformed_def pair_ok_def left_output_def right_output_def
      side_direction_def)

text \<open>
  A block can be cut anywhere into what has run and what is still to run, and the last
  of the states it passes through is the state it returns.
\<close>

lemma exec_take_drop: "exec body s = exec (drop k body) (exec (take k body) s)"
  using exec_append [of "take k body" "drop k body" s] by simp

lemma last_during: "last (during body s) = exec body s"
  by (simp add: during_def last_map del: upt_Suc)

lemma sketch_began:
  "sketch True now iters s0 = Some (iterate iters (the (returned (setup_sketch True now s0))))"
  by (simp add: sketch_def setup_sketch_began)

section \<open>The claims\<close>

text \<open>
  C1. The \<^verbatim>\<open>switch\<close> follows the protocol table. The byte F runs \<^verbatim>\<open>backward()\<close>
  (both sides Reverse at duty 200), B runs \<^verbatim>\<open>forward()\<close> (both sides Forward at 200),
  R runs \<^verbatim>\<open>leftTurn()\<close> (left Reverse, right Forward, at 180), L runs
  \<^verbatim>\<open>rightTurn()\<close> (left Forward, right Reverse, at 180), S runs \<^verbatim>\<open>stopMotors()\<close>
  (both Neutral at 0); each writes the four direction pins and the two duties as
  listed and no other pin. O switches the face to Blinking: the mode becomes
  \<open>FACE_BLINK\<close>, the eyes open, the timestamp \<open>now\<close>, and the open-eyed face is drawn
  (clear, clear, two rectangles of 20 by 20, flush) and the switch reported. T switches
  the face to Thinking: the mode becomes \<open>FACE_THINK\<close>, and the thinking face is drawn
  (clear, two rectangles of 16 by 16, three circles, flush) and the switch reported;
  nothing else changes in either case. Every other byte adds one line of serial output
  to the log and nothing else: no pin is written, nothing is drawn, and the face mode,
  the blink phase and the blink timestamp stay as they were.
\<close>

theorem dispatch_table:
  "dispatch CHR ''F'' now s = backward s \<and>
   dispatch CHR ''B'' now s = forward s \<and>
   dispatch CHR ''R'' now s = leftTurn s \<and>
   dispatch CHR ''L'' now s = rightTurn s \<and>
   dispatch CHR ''S'' now s = stopMotors s \<and>
   left_output (dispatch CHR ''F'' now s) = (Some Reverse, 200) \<and>
   right_output (dispatch CHR ''F'' now s) = (Some Reverse, 200) \<and>
   left_output (dispatch CHR ''B'' now s) = (Some Forward, 200) \<and>
   right_output (dispatch CHR ''B'' now s) = (Some Forward, 200) \<and>
   left_output (dispatch CHR ''R'' now s) = (Some Reverse, 180) \<and>
   right_output (dispatch CHR ''R'' now s) = (Some Forward, 180) \<and>
   left_output (dispatch CHR ''L'' now s) = (Some Forward, 180) \<and>
   right_output (dispatch CHR ''L'' now s) = (Some Reverse, 180) \<and>
   left_output (dispatch CHR ''S'' now s) = (Some Neutral, 0) \<and>
   right_output (dispatch CHR ''S'' now s) = (Some Neutral, 0) \<and>
   digital (dispatch CHR ''F'' now s) =
     (digital s)(IN1 := LOW, IN2 := HIGH, IN3 := LOW, IN4 := HIGH) \<and>
   pwm (dispatch CHR ''F'' now s) = (pwm s)(ENA := 200, ENB := 200) \<and>
   digital (dispatch CHR ''B'' now s) =
     (digital s)(IN1 := HIGH, IN2 := LOW, IN3 := HIGH, IN4 := LOW) \<and>
   pwm (dispatch CHR ''B'' now s) = (pwm s)(ENA := 200, ENB := 200) \<and>
   digital (dispatch CHR ''R'' now s) =
     (digital s)(IN1 := LOW, IN2 := HIGH, IN3 := HIGH, IN4 := LOW) \<and>
   pwm (dispatch CHR ''R'' now s) = (pwm s)(ENA := 180, ENB := 180) \<and>
   digital (dispatch CHR ''L'' now s) =
     (digital s)(IN1 := HIGH, IN2 := LOW, IN3 := LOW, IN4 := HIGH) \<and>
   pwm (dispatch CHR ''L'' now s) = (pwm s)(ENA := 180, ENB := 180) \<and>
   digital (dispatch CHR ''S'' now s) =
     (digital s)(IN1 := LOW, IN2 := LOW, IN3 := LOW, IN4 := LOW) \<and>
   pwm (dispatch CHR ''S'' now s) = (pwm s)(ENA := 0, ENB := 0) \<and>
   dispatch CHR ''O'' now s =
     s\<lparr>currentFace := FACE_BLINK, blinkOpen := True, lastBlinkChange := now,
       calls := calls s @
         [clearDisplay, clearDisplay,
          fillRect 30 20 20 20 SSD1306_WHITE, fillRect 80 20 20 20 SSD1306_WHITE,
          display_display,
          Serial_println (''Face '' @ [CHR 0xE2, CHR 0x86, CHR 0x92] @ '' Blinking '' @
              [CHR 0xF0, CHR 0x9F, CHR 0x91, CHR 0x80, CHR 0xE2, CHR 0x9C, CHR 0xA8])]\<rparr> \<and>
   dispatch CHR ''T'' now s =
     s\<lparr>currentFace := FACE_THINK,
       calls := calls s @
         [clearDisplay,
          fillRect 30 22 16 16 SSD1306_WHITE, fillRect 82 22 16 16 SSD1306_WHITE,
          fillCircle 48 50 4 SSD1306_WHITE, fillCircle 64 50 4 SSD1306_WHITE,
          fillCircle 80 50 4 SSD1306_WHITE,
          display_display,
          Serial_println (''Face '' @ [CHR 0xE2, CHR 0x86, CHR 0x92] @ '' Thinking '' @
              [CHR 0xF0, CHR 0x9F, CHR 0xA4, CHR 0x94])]\<rparr> \<and>
   currentFace (dispatch CHR ''O'' now s) = FACE_BLINK \<and>
   currentFace (dispatch CHR ''T'' now s) = FACE_THINK \<and>
   (cmd \<notin> {CHR ''F'', CHR ''B'', CHR ''R'', CHR ''L'', CHR ''S'', CHR ''O'', CHR ''T''} \<longrightarrow>
      calls (dispatch cmd now s) =
        calls s @
          [Serial_println (''Unknown command '' @ [CHR 0xF0, CHR 0x9F, CHR 0x98, CHR 0x85] @
             '' (F B L R S | O T)'')] \<and>
      digital (dispatch cmd now s) = digital s \<and> pwm (dispatch cmd now s) = pwm s \<and>
      currentFace (dispatch cmd now s) = currentFace s \<and>
      blinkOpen (dispatch cmd now s) = blinkOpen s \<and>
      lastBlinkChange (dispatch cmd now s) = lastBlinkChange s)"
proof -
  have motor:
    "dispatch CHR ''F'' now s = backward s" "dispatch CHR ''B'' now s = forward s"
    "dispatch CHR ''R'' now s = leftTurn s" "dispatch CHR ''L'' now s = rightTurn s"
    "dispatch CHR ''S'' now s = stopMotors s"
    by (simp_all add: dispatch_def)
  have face:
    "currentFace (dispatch CHR ''O'' now s) = FACE_BLINK"
    "currentFace (dispatch CHR ''T'' now s) = FACE_THINK"
    by (simp_all add: dispatch_O dispatch_T)
  have other: "cmd \<notin> {CHR ''F'', CHR ''B'', CHR ''R'', CHR ''L'', CHR ''S'', CHR ''O'', CHR ''T''} \<longrightarrow>
      calls (dispatch cmd now s) =
        calls s @
          [Serial_println (''Unknown command '' @ [CHR 0xF0, CHR 0x9F, CHR 0x98, CHR 0x85] @
             '' (F B L R S | O T)'')] \<and>
      digital (dispatch cmd now s) = digital s \<and> pwm (dispatch cmd now s) = pwm s \<and>
      currentFace (dispatch cmd now s) = currentFace s \<and>
      blinkOpen (dispatch cmd now s) = blinkOpen s \<and>
      lastBlinkChange (dispatch cmd now s) = lastBlinkChange s"
    by (simp add: dispatch_other)
  have pins:
    "digital (backward s) = (digital s)(IN1 := LOW, IN2 := HIGH, IN3 := LOW, IN4 := HIGH)"
    "pwm (backward s) = (pwm s)(ENA := 200, ENB := 200)"
    "digital (forward s) = (digital s)(IN1 := HIGH, IN2 := LOW, IN3 := HIGH, IN4 := LOW)"
    "pwm (forward s) = (pwm s)(ENA := 200, ENB := 200)"
    "digital (leftTurn s) = (digital s)(IN1 := LOW, IN2 := HIGH, IN3 := HIGH, IN4 := LOW)"
    "pwm (leftTurn s) = (pwm s)(ENA := 180, ENB := 180)"
    "digital (rightTurn s) = (digital s)(IN1 := HIGH, IN2 := LOW, IN3 := LOW, IN4 := HIGH)"
    "pwm (rightTurn s) = (pwm s)(ENA := 180, ENB := 180)"
    "digital (stopMotors s) = (digital s)(IN1 := LOW, IN2 := LOW, IN3 := LOW, IN4 := LOW)"
    "pwm (stopMotors s) = (pwm s)(ENA := 0, ENB := 0)"
    by (rule motor_writes)+
  note redraw = dispatch_O [of now s] dispatch_T [of now s]
  show ?thesis
    unfolding motor
    using motor_outputs [of s] stop_output [of s] pins redraw face other by blast
qed

theorem dispatch_table_witness:
  "dispatch CHR ''F'' 0 power_on = backward power_on \<and>
   CHR ''Z'' \<notin> {CHR ''F'', CHR ''B'', CHR ''R'', CHR ''L'', CHR ''S'', CHR ''O'', CHR ''T''} \<and>
   digital (dispatch CHR ''Z'' 0 power_on) = digital power_on \<and>
   currentFace (dispatch CHR ''Z'' 0 power_on) = FACE_BLINK \<and>
   calls (dispatch CHR ''Z'' 0 power_on) =
     [Serial_println (''Unknown command '' @ [CHR 0xF0, CHR 0x9F, CHR 0x98, CHR 0x85] @
        '' (F B L R S | O T)'')] \<and>
   calls (dispatch CHR ''T'' 0 power_on) =
     [clearDisplay,
      fillRect 30 22 16 16 SSD1306_WHITE, fillRect 82 22 16 16 SSD1306_WHITE,
      fillCircle 48 50 4 SSD1306_WHITE, fillCircle 64 50 4 SSD1306_WHITE,
      fillCircle 80 50 4 SSD1306_WHITE,
      display_display,
      Serial_println (''Face '' @ [CHR 0xE2, CHR 0x86, CHR 0x92] @ '' Thinking '' @
          [CHR 0xF0, CHR 0x9F, CHR 0xA4, CHR 0x94])] \<and>
   left_output (dispatch CHR ''R'' 0 power_on) = (Some Reverse, 180) \<and>
   right_output (dispatch CHR ''R'' 0 power_on) = (Some Forward, 180)"
proof -
  have h: "CHR ''Z'' \<notin> {CHR ''F'', CHR ''B'', CHR ''R'', CHR ''L'', CHR ''S'', CHR ''O'', CHR ''T''}"
    by simp
  note t = dispatch_table [of 0 power_on "CHR ''Z''"]
  have f: "dispatch CHR ''F'' 0 power_on = backward power_on"
    using t by blast
  have r: "left_output (dispatch CHR ''R'' 0 power_on) = (Some Reverse, 180)"
    "right_output (dispatch CHR ''R'' 0 power_on) = (Some Forward, 180)"
    using t by blast+
  have think: "dispatch CHR ''T'' 0 power_on =
     power_on\<lparr>currentFace := FACE_THINK,
       calls := calls power_on @
         [clearDisplay,
          fillRect 30 22 16 16 SSD1306_WHITE, fillRect 82 22 16 16 SSD1306_WHITE,
          fillCircle 48 50 4 SSD1306_WHITE, fillCircle 64 50 4 SSD1306_WHITE,
          fillCircle 80 50 4 SSD1306_WHITE,
          display_display,
          Serial_println (''Face '' @ [CHR 0xE2, CHR 0x86, CHR 0x92] @ '' Thinking '' @
              [CHR 0xF0, CHR 0x9F, CHR 0xA4, CHR 0x94])]\<rparr>"
    using t by blast
  have z: "calls (dispatch CHR ''Z'' 0 power_on) =
        calls power_on @
          [Serial_println (''Unknown command '' @ [CHR 0xF0, CHR 0x9F, CHR 0x98, CHR 0x85] @
             '' (F B L R S | O T)'')]"
    "digital (dispatch CHR ''Z'' 0 power_on) = digital power_on"
    "currentFace (dispatch CHR ''Z'' 0 power_on) = currentFace power_on"
    using t h by blast+
  have p: "calls power_on = []" "currentFace power_on = FACE_BLINK"
    by (simp_all add: power_on_def)
  have tc: "calls (dispatch CHR ''T'' 0 power_on) =
     [clearDisplay,
      fillRect 30 22 16 16 SSD1306_WHITE, fillRect 82 22 16 16 SSD1306_WHITE,
      fillCircle 48 50 4 SSD1306_WHITE, fillCircle 64 50 4 SSD1306_WHITE,
      fillCircle 80 50 4 SSD1306_WHITE,
      display_display,
      Serial_println (''Face '' @ [CHR 0xE2, CHR 0x86, CHR 0x92] @ '' Thinking '' @
          [CHR 0xF0, CHR 0x9F, CHR 0xA4, CHR 0x94])]"
    unfolding think by (simp add: p)
  show ?thesis
    using h f z r tc by (simp add: p)
qed

text \<open>
  C2. The animation tick, lines 124 to 134 of \<^verbatim>\<open>loop\<close>. In \<open>FACE_BLINK\<close> with the
  eyes open it closes them, sets \<open>lastBlinkChange\<close> to \<open>now\<close> and redraws (clear, two
  closed-eye rectangles, flush) when \<open>now - lastBlinkChange\<close> is at least 3000; with
  the eyes closed it opens them, sets the timestamp and redraws when the difference is
  at least 200; below the threshold it changes nothing. In \<open>FACE_THINK\<close> it changes
  nothing. The difference is the \<^verbatim>\<open>unsigned long\<close> subtraction of the source, the time
  elapsed modulo \<open>2 ^ 32\<close> milliseconds. After the command O at time 0, the tick at
  2999 leaves the eyes open, the tick at 3000 closes them, the tick at 3199 leaves them
  closed and the tick at 3200 opens them again.
\<close>

theorem poll_contract:
  "(currentFace s = FACE_BLINK \<and> blinkOpen s \<and> 3000 \<le> now - lastBlinkChange s \<longrightarrow>
      blinking_logic now s =
        s\<lparr>blinkOpen := False, lastBlinkChange := now,
          calls := calls s @
            [clearDisplay, fillRect 30 27 20 6 SSD1306_WHITE, fillRect 80 27 20 6 SSD1306_WHITE,
             display_display]\<rparr>) \<and>
   (currentFace s = FACE_BLINK \<and> \<not> blinkOpen s \<and> 200 \<le> now - lastBlinkChange s \<longrightarrow>
      blinking_logic now s =
        s\<lparr>blinkOpen := True, lastBlinkChange := now,
          calls := calls s @
            [clearDisplay, fillRect 30 20 20 20 SSD1306_WHITE, fillRect 80 20 20 20 SSD1306_WHITE,
             display_display]\<rparr>) \<and>
   (currentFace s = FACE_BLINK \<and> blinkOpen s \<and> now - lastBlinkChange s < 3000 \<longrightarrow>
      blinking_logic now s = s) \<and>
   (currentFace s = FACE_BLINK \<and> \<not> blinkOpen s \<and> now - lastBlinkChange s < 200 \<longrightarrow>
      blinking_logic now s = s) \<and>
   (currentFace s = FACE_THINK \<longrightarrow> blinking_logic now s = s) \<and>
   (let s0 = dispatch CHR ''O'' 0 s;
        s1 = blinking_logic 2999 s0;
        s2 = blinking_logic 3000 s1;
        s3 = blinking_logic 3199 s2;
        s4 = blinking_logic 3200 s3
    in s1 = s0 \<and> currentFace s1 = FACE_BLINK \<and> blinkOpen s1 \<and>
       \<not> blinkOpen s2 \<and> lastBlinkChange s2 = 3000 \<and>
       s3 = s2 \<and>
       blinkOpen s4 \<and> lastBlinkChange s4 = 3200)"
proof -
  have a: "currentFace s = FACE_BLINK \<and> blinkOpen s \<and> 3000 \<le> now - lastBlinkChange s \<longrightarrow>
      blinking_logic now s =
        s\<lparr>blinkOpen := False, lastBlinkChange := now,
          calls := calls s @
            [clearDisplay, fillRect 30 27 20 6 SSD1306_WHITE, fillRect 80 27 20 6 SSD1306_WHITE,
             display_display]\<rparr>"
    by (simp add: blinking_logic_flip drawBlinkFace_body_def)
  have b: "currentFace s = FACE_BLINK \<and> \<not> blinkOpen s \<and> 200 \<le> now - lastBlinkChange s \<longrightarrow>
      blinking_logic now s =
        s\<lparr>blinkOpen := True, lastBlinkChange := now,
          calls := calls s @
            [clearDisplay, fillRect 30 20 20 20 SSD1306_WHITE, fillRect 80 20 20 20 SSD1306_WHITE,
             display_display]\<rparr>"
    by (simp add: blinking_logic_flip drawBlinkFace_body_def)
  have c: "currentFace s = FACE_BLINK \<and> blinkOpen s \<and> now - lastBlinkChange s < 3000 \<longrightarrow>
      blinking_logic now s = s"
    by (simp add: blinking_logic_hold)
  have d: "currentFace s = FACE_BLINK \<and> \<not> blinkOpen s \<and> now - lastBlinkChange s < 200 \<longrightarrow>
      blinking_logic now s = s"
    by (simp add: blinking_logic_hold)
  have e: "currentFace s = FACE_THINK \<longrightarrow> blinking_logic now s = s"
    by (simp add: blinking_logic_think)
  define s0 where "s0 = dispatch CHR ''O'' 0 s"
  have s0: "currentFace s0 = FACE_BLINK" "blinkOpen s0" "lastBlinkChange s0 = 0"
    by (simp_all add: s0_def dispatch_O)
  have s1: "blinking_logic 2999 s0 = s0"
    using s0 by (simp add: blinking_logic_hold)
  define s2 where "s2 = blinking_logic 3000 s0"
  have s2: "currentFace s2 = FACE_BLINK" "\<not> blinkOpen s2" "lastBlinkChange s2 = 3000"
    using s0 by (simp_all add: s2_def blinking_logic_flip)
  have s3: "blinking_logic 3199 s2 = s2"
    using s2 by (simp add: blinking_logic_hold)
  have s4: "blinkOpen (blinking_logic 3200 s2)" "lastBlinkChange (blinking_logic 3200 s2) = 3200"
    using s2 by (simp_all add: blinking_logic_flip)
  have f: "let s0 = dispatch CHR ''O'' 0 s;
        s1 = blinking_logic 2999 s0;
        s2 = blinking_logic 3000 s1;
        s3 = blinking_logic 3199 s2;
        s4 = blinking_logic 3200 s3
    in s1 = s0 \<and> currentFace s1 = FACE_BLINK \<and> blinkOpen s1 \<and>
       \<not> blinkOpen s2 \<and> lastBlinkChange s2 = 3000 \<and>
       s3 = s2 \<and>
       blinkOpen s4 \<and> lastBlinkChange s4 = 3200"
    unfolding Let_def s0_def [symmetric] s1 s2_def [symmetric] s3
    using s0 s2 s4 by simp
  from a b c d e f show ?thesis by blast
qed

theorem poll_contract_witness:
  "currentFace (dispatch CHR ''O'' 1000 power_on) = FACE_BLINK \<and>
   blinkOpen (dispatch CHR ''O'' 1000 power_on) \<and>
   (3000 :: ulong) \<le> 4000 - lastBlinkChange (dispatch CHR ''O'' 1000 power_on) \<and>
   \<not> blinkOpen (blinking_logic 4000 (dispatch CHR ''O'' 1000 power_on)) \<and>
   lastBlinkChange (blinking_logic 4000 (dispatch CHR ''O'' 1000 power_on)) = 4000 \<and>
   (3999 :: ulong) - lastBlinkChange (dispatch CHR ''O'' 1000 power_on) < 3000 \<and>
   blinking_logic 3999 (dispatch CHR ''O'' 1000 power_on) = dispatch CHR ''O'' 1000 power_on \<and>
   currentFace (dispatch CHR ''T'' 0 power_on) = FACE_THINK \<and>
   blinking_logic 9999 (dispatch CHR ''T'' 0 power_on) = dispatch CHR ''T'' 0 power_on"
proof -
  let ?b = "dispatch CHR ''O'' 1000 power_on"
  let ?t = "dispatch CHR ''T'' 0 power_on"
  have b: "currentFace ?b = FACE_BLINK" "blinkOpen ?b" "lastBlinkChange ?b = 1000"
    by (simp_all add: dispatch_O)
  have t: "currentFace ?t = FACE_THINK"
    by (simp add: dispatch_T)
  have h1: "(3000 :: ulong) \<le> 4000 - lastBlinkChange ?b"
    and h2: "(3999 :: ulong) - lastBlinkChange ?b < 3000"
    by (simp_all add: b)
  have flip: "blinking_logic 4000 ?b =
        ?b\<lparr>blinkOpen := False, lastBlinkChange := 4000,
          calls := calls ?b @
            [clearDisplay, fillRect 30 27 20 6 SSD1306_WHITE, fillRect 80 27 20 6 SSD1306_WHITE,
             display_display]\<rparr>"
    using poll_contract [of ?b 4000 ] b h1 by blast
  have hold: "blinking_logic 3999 ?b = ?b"
    using poll_contract [of ?b 3999] b h2 by blast
  have think: "blinking_logic 9999 ?t = ?t"
    using poll_contract [of ?t 9999] t by blast
  have f: "\<not> blinkOpen (blinking_logic 4000 ?b)" "lastBlinkChange (blinking_logic 4000 ?b) = 4000"
    unfolding flip by simp_all
  show ?thesis
    using b(1,2) h1 h2 f hold t think by blast
qed

text \<open>
  C3. The startup sequence. Lines 45 to 56 open the serial port, make the six motor
  pins outputs and call \<^verbatim>\<open>stopMotors()\<close>: both sides read (Neutral, 0) before any call
  to the display is made. Then \<^verbatim>\<open>display.begin\<close> is called. If it fails, the failure
  is printed and the function hangs in the empty loop of line 61 and never returns. The
  state it hangs in has, after what was logged before, the serial and pin set-up, the
  calls of \<^verbatim>\<open>stopMotors()\<close>, \<^verbatim>\<open>display.begin\<close> and the failure message, in that
  order, and nothing more; both sides read (Neutral, 0); the bytes queued are all still
  queued and the face globals are untouched. No iteration of \<^verbatim>\<open>loop\<close> is ever
  reached, whatever arrives. If it succeeds, the function returns with the face mode
  \<open>FACE_BLINK\<close>, the eyes open and \<open>lastBlinkChange\<close> set to the clock reading, the
  face drawn (clear, the two open-eye rectangles, flush) and the three lines of the
  banner printed, the motors still stopped, and the iterations start from that state.
\<close>

theorem startup_sequence:
  "calls (setup_motors s) =
     calls s @
       [Serial_begin 9600,
        pinMode_OUTPUT ENA, pinMode_OUTPUT IN1, pinMode_OUTPUT IN2,
        pinMode_OUTPUT ENB, pinMode_OUTPUT IN3, pinMode_OUTPUT IN4] @
       stopMotors_body \<and>
   left_output (setup_motors s) = (Some Neutral, 0) \<and>
   right_output (setup_motors s) = (Some Neutral, 0) \<and>
   setup_sketch False now s =
     Hangs ((setup_motors s)
       \<lparr>calls := calls (setup_motors s) @
          [display_begin,
           Serial_println (''SSD1306 failed '' @ [CHR 0xF0, CHR 0x9F, CHR 0x98, CHR 0xB5])]\<rparr>) \<and>
   returned (setup_sketch False now s) = None \<and>
   map_option calls (hung (setup_sketch False now s)) =
     Some (calls s @
       [Serial_begin 9600,
        pinMode_OUTPUT ENA, pinMode_OUTPUT IN1, pinMode_OUTPUT IN2,
        pinMode_OUTPUT ENB, pinMode_OUTPUT IN3, pinMode_OUTPUT IN4,
        Serial_println (''Stop '' @ [CHR 0xF0, CHR 0x9F, CHR 0x9B, CHR 0x91]),
        analogWrite ENA 0, analogWrite ENB 0,
        digitalWrite IN1 LOW, digitalWrite IN2 LOW, digitalWrite IN3 LOW, digitalWrite IN4 LOW,
        display_begin,
        Serial_println (''SSD1306 failed '' @ [CHR 0xF0, CHR 0x9F, CHR 0x98, CHR 0xB5])]) \<and>
   map_option left_output (hung (setup_sketch False now s)) = Some (Some Neutral, 0) \<and>
   map_option right_output (hung (setup_sketch False now s)) = Some (Some Neutral, 0) \<and>
   map_option rx (hung (setup_sketch False now s)) = Some (rx s) \<and>
   map_option currentFace (hung (setup_sketch False now s)) = Some (currentFace s) \<and>
   map_option blinkOpen (hung (setup_sketch False now s)) = Some (blinkOpen s) \<and>
   map_option lastBlinkChange (hung (setup_sketch False now s)) = Some (lastBlinkChange s) \<and>
   sketch False now iters s = None \<and>
   setup_sketch True now s =
     Returns ((setup_motors s)
       \<lparr>currentFace := FACE_BLINK, blinkOpen := True, lastBlinkChange := now,
        calls := calls (setup_motors s) @
          [display_begin, clearDisplay,
           clearDisplay, clearDisplay,
           fillRect 30 20 20 20 SSD1306_WHITE, fillRect 80 20 20 20 SSD1306_WHITE,
           display_display,
           Serial_println ([CHR 0xF0, CHR 0x9F, CHR 0xA4, CHR 0x96] @ '' READY!''),
           Serial_println ''Motor controls: F B L R S'',
           Serial_println ''Face controls: O (blink), T (think)'']\<rparr>) \<and>
   hung (setup_sketch True now s) = None \<and>
   map_option calls (returned (setup_sketch True now s)) =
     Some (calls s @
       [Serial_begin 9600,
        pinMode_OUTPUT ENA, pinMode_OUTPUT IN1, pinMode_OUTPUT IN2,
        pinMode_OUTPUT ENB, pinMode_OUTPUT IN3, pinMode_OUTPUT IN4,
        Serial_println (''Stop '' @ [CHR 0xF0, CHR 0x9F, CHR 0x9B, CHR 0x91]),
        analogWrite ENA 0, analogWrite ENB 0,
        digitalWrite IN1 LOW, digitalWrite IN2 LOW, digitalWrite IN3 LOW, digitalWrite IN4 LOW,
        display_begin, clearDisplay,
        clearDisplay, clearDisplay,
        fillRect 30 20 20 20 SSD1306_WHITE, fillRect 80 20 20 20 SSD1306_WHITE,
        display_display,
        Serial_println ([CHR 0xF0, CHR 0x9F, CHR 0xA4, CHR 0x96] @ '' READY!''),
        Serial_println ''Motor controls: F B L R S'',
        Serial_println ''Face controls: O (blink), T (think)'']) \<and>
   map_option currentFace (returned (setup_sketch True now s)) = Some FACE_BLINK \<and>
   map_option blinkOpen (returned (setup_sketch True now s)) = Some True \<and>
   map_option lastBlinkChange (returned (setup_sketch True now s)) = Some now \<and>
   map_option left_output (returned (setup_sketch True now s)) = Some (Some Neutral, 0) \<and>
   map_option right_output (returned (setup_sketch True now s)) = Some (Some Neutral, 0) \<and>
   map_option rx (returned (setup_sketch True now s)) = Some (rx s) \<and>
   sketch True now iters s = map_option (iterate iters) (returned (setup_sketch True now s))"
proof -
  have log: "calls (setup_motors s) =
     calls s @
       [Serial_begin 9600,
        pinMode_OUTPUT ENA, pinMode_OUTPUT IN1, pinMode_OUTPUT IN2,
        pinMode_OUTPUT ENB, pinMode_OUTPUT IN3, pinMode_OUTPUT IN4] @
       stopMotors_body"
    by (rule calls_setup_motors)
  have out: "left_output (setup_motors s) = (Some Neutral, 0)"
    "right_output (setup_motors s) = (Some Neutral, 0)"
    using stop_output by (simp_all add: setup_motors_def)
  note failed = setup_sketch_failed [of now s]
  note began = setup_sketch_began [of now s]
  have f1: "returned (setup_sketch False now s) = None"
    by (simp add: failed)
  have f2: "map_option calls (hung (setup_sketch False now s)) =
     Some (calls s @
       [Serial_begin 9600,
        pinMode_OUTPUT ENA, pinMode_OUTPUT IN1, pinMode_OUTPUT IN2,
        pinMode_OUTPUT ENB, pinMode_OUTPUT IN3, pinMode_OUTPUT IN4,
        Serial_println (''Stop '' @ [CHR 0xF0, CHR 0x9F, CHR 0x9B, CHR 0x91]),
        analogWrite ENA 0, analogWrite ENB 0,
        digitalWrite IN1 LOW, digitalWrite IN2 LOW, digitalWrite IN3 LOW, digitalWrite IN4 LOW,
        display_begin,
        Serial_println (''SSD1306 failed '' @ [CHR 0xF0, CHR 0x9F, CHR 0x98, CHR 0xB5])])"
    by (simp add: failed log stopMotors_body_def)
  have f3: "map_option left_output (hung (setup_sketch False now s)) = Some (Some Neutral, 0)"
    "map_option right_output (hung (setup_sketch False now s)) = Some (Some Neutral, 0)"
    using out by (simp_all add: failed left_output_def right_output_def)
  have f4: "map_option rx (hung (setup_sketch False now s)) = Some (rx s)"
    "map_option currentFace (hung (setup_sketch False now s)) = Some (currentFace s)"
    "map_option blinkOpen (hung (setup_sketch False now s)) = Some (blinkOpen s)"
    "map_option lastBlinkChange (hung (setup_sketch False now s)) = Some (lastBlinkChange s)"
    by (simp_all add: failed rx_setup_motors face_setup_motors)
  have f5: "sketch False now iters s = None"
    by (simp add: sketch_def failed)
  have b1: "hung (setup_sketch True now s) = None"
    by (simp add: began)
  have b2: "map_option calls (returned (setup_sketch True now s)) =
     Some (calls s @
       [Serial_begin 9600,
        pinMode_OUTPUT ENA, pinMode_OUTPUT IN1, pinMode_OUTPUT IN2,
        pinMode_OUTPUT ENB, pinMode_OUTPUT IN3, pinMode_OUTPUT IN4,
        Serial_println (''Stop '' @ [CHR 0xF0, CHR 0x9F, CHR 0x9B, CHR 0x91]),
        analogWrite ENA 0, analogWrite ENB 0,
        digitalWrite IN1 LOW, digitalWrite IN2 LOW, digitalWrite IN3 LOW, digitalWrite IN4 LOW,
        display_begin, clearDisplay,
        clearDisplay, clearDisplay,
        fillRect 30 20 20 20 SSD1306_WHITE, fillRect 80 20 20 20 SSD1306_WHITE,
        display_display,
        Serial_println ([CHR 0xF0, CHR 0x9F, CHR 0xA4, CHR 0x96] @ '' READY!''),
        Serial_println ''Motor controls: F B L R S'',
        Serial_println ''Face controls: O (blink), T (think)''])"
    by (simp add: began log stopMotors_body_def)
  have b3: "map_option currentFace (returned (setup_sketch True now s)) = Some FACE_BLINK"
    "map_option blinkOpen (returned (setup_sketch True now s)) = Some True"
    "map_option lastBlinkChange (returned (setup_sketch True now s)) = Some now"
    "map_option rx (returned (setup_sketch True now s)) = Some (rx s)"
    by (simp_all add: began rx_setup_motors)
  have b4: "map_option left_output (returned (setup_sketch True now s)) = Some (Some Neutral, 0)"
    "map_option right_output (returned (setup_sketch True now s)) = Some (Some Neutral, 0)"
    using out by (simp_all add: began left_output_def right_output_def)
  have b5: "sketch True now iters s = map_option (iterate iters) (returned (setup_sketch True now s))"
    by (simp add: sketch_def began)
  show ?thesis
    using log out failed f1 f2 f3 f4 f5 began b1 b2 b3 b4 b5 by blast
qed

text \<open>
  C4. One iteration of \<^verbatim>\<open>loop\<close>. With no byte waiting the serial part changes
  nothing and the iteration is just the tick. With bytes waiting exactly the oldest one
  is taken and dispatched, and the others stay queued; the tick then runs on the state
  the dispatch left, so in the log of calls those of the dispatch come first and those
  of the tick after them. Over \<open>n\<close> iterations in which nothing arrives, the first
  \<open>n\<close> queued bytes are taken, one in each. Every function here is total: an iteration
  always returns.
\<close>

theorem loop_iteration_order:
  "(rx s = [] \<longrightarrow>
      handle_serial now_cmd s = s \<and>
      loop now_cmd now_blink s = blinking_logic now_blink s) \<and>
   (\<forall>cmd rest. rx s = cmd # rest \<longrightarrow>
      handle_serial now_cmd s = dispatch cmd now_cmd (s\<lparr>rx := rest\<rparr>) \<and>
      loop now_cmd now_blink s =
        blinking_logic now_blink (dispatch cmd now_cmd (s\<lparr>rx := rest\<rparr>)) \<and>
      rx (loop now_cmd now_blink s) = rest) \<and>
   rx (loop now_cmd now_blink s) = tl (rx s) \<and>
   (\<exists>d p. calls (handle_serial now_cmd s) = calls s @ d \<and>
      calls (loop now_cmd now_blink s) = calls s @ d @ p) \<and>
   rx (iterate (map (\<lambda>clocks. ([], clocks)) ts) s) =
     drop (length ts) (rx s)"
proof -
  have a: "rx s = [] \<longrightarrow>
      handle_serial now_cmd s = s \<and>
      loop now_cmd now_blink s = blinking_logic now_blink s"
    by (simp add: loop_def handle_serial_Nil)
  have b: "\<forall>cmd rest. rx s = cmd # rest \<longrightarrow>
      handle_serial now_cmd s = dispatch cmd now_cmd (s\<lparr>rx := rest\<rparr>) \<and>
      loop now_cmd now_blink s =
        blinking_logic now_blink (dispatch cmd now_cmd (s\<lparr>rx := rest\<rparr>)) \<and>
      rx (loop now_cmd now_blink s) = rest"
    by (auto simp add: loop_def handle_serial_Cons rx_blinking_logic rx_dispatch)
  have c: "\<exists>d p. calls (handle_serial now_cmd s) = calls s @ d \<and>
      calls (loop now_cmd now_blink s) = calls s @ d @ p"
  proof -
    obtain d where d: "calls (handle_serial now_cmd s) = calls s @ d"
      using calls_handle_serial_grows by blast
    obtain p where p: "calls (blinking_logic now_blink (handle_serial now_cmd s)) =
        calls (handle_serial now_cmd s) @ p"
      using calls_blinking_logic_grows by blast
    show ?thesis using d p by (simp add: loop_def)
  qed
  show ?thesis
    using a b c rx_loop [of now_cmd now_blink s] rx_iterate_quiet [of ts s] by blast
qed

theorem loop_iteration_order_witness:
  "rx power_on = [] \<and>
   loop 0 0 power_on = power_on \<and>
   rx (power_on\<lparr>rx := ''FS''\<rparr>) = CHR ''F'' # ''S'' \<and>
   rx (loop 5 6 (power_on\<lparr>rx := ''FS''\<rparr>)) = ''S'' \<and>
   left_output (loop 5 6 (power_on\<lparr>rx := ''FS''\<rparr>)) = (Some Reverse, 200)"
proof -
  let ?q = "power_on\<lparr>rx := ''FS''\<rparr>"
  have h0: "rx power_on = []" by (simp add: power_on_def)
  have h1: "rx ?q = CHR ''F'' # ''S''" by simp
  have e: "blinking_logic 0 power_on = power_on"
    by (simp add: blinking_logic_hold power_on_def)
  have l0: "loop 0 0 power_on = power_on"
    using loop_iteration_order [of power_on 0 0] h0 e by simp
  note t = loop_iteration_order [of ?q 5 6, THEN conjunct2, THEN conjunct1, rule_format, OF h1]
  have r: "rx (loop 5 6 ?q) = ''S''"
    by (rule t [THEN conjunct2, THEN conjunct2])
  have o: "left_output (loop 5 6 ?q) = (Some Reverse, 200)"
    unfolding t [THEN conjunct2, THEN conjunct1]
    using motor_outputs(3) [of "?q\<lparr>rx := ''S''\<rparr>"]
    by (simp add: dispatch_def left_output_def digital_blinking_logic pwm_blinking_logic)
  show ?thesis using h0 h1 l0 r o by blast
qed

text \<open>
  C5. A byte outside F, B, R, L, S, O, T is reported and changes nothing: the state
  after the dispatch is the state before it with the line "Unknown command ..." added to
  the log. The pin levels and duties, so the output of both motor sides, the face mode,
  the blink phase and the blink timestamp are exactly as before.
\<close>

theorem unknown_byte_reported:
  "cmd \<notin> {CHR ''F'', CHR ''B'', CHR ''R'', CHR ''L'', CHR ''S'', CHR ''O'', CHR ''T''} \<Longrightarrow>
   dispatch cmd now s =
     s\<lparr>calls := calls s @
        [Serial_println (''Unknown command '' @ [CHR 0xF0, CHR 0x9F, CHR 0x98, CHR 0x85] @
           '' (F B L R S | O T)'')]\<rparr> \<and>
   digital (dispatch cmd now s) = digital s \<and>
   pwm (dispatch cmd now s) = pwm s \<and>
   left_output (dispatch cmd now s) = left_output s \<and>
   right_output (dispatch cmd now s) = right_output s \<and>
   currentFace (dispatch cmd now s) = currentFace s \<and>
   blinkOpen (dispatch cmd now s) = blinkOpen s \<and>
   lastBlinkChange (dispatch cmd now s) = lastBlinkChange s"
  by (simp add: dispatch_def left_output_def right_output_def)

theorem unknown_byte_reported_witness:
  "CHR ''Z'' \<notin> {CHR ''F'', CHR ''B'', CHR ''R'', CHR ''L'', CHR ''S'', CHR ''O'', CHR ''T''} \<and>
   calls (dispatch CHR ''Z'' 7 (forward power_on)) =
     calls (forward power_on) @
       [Serial_println (''Unknown command '' @ [CHR 0xF0, CHR 0x9F, CHR 0x98, CHR 0x85] @
          '' (F B L R S | O T)'')] \<and>
   left_output (dispatch CHR ''Z'' 7 (forward power_on)) = (Some Forward, 200) \<and>
   right_output (dispatch CHR ''Z'' 7 (forward power_on)) = (Some Forward, 200) \<and>
   currentFace (dispatch CHR ''Z'' 7 (forward power_on)) = FACE_BLINK \<and>
   blinkOpen (dispatch CHR ''Z'' 7 (forward power_on)) \<and>
   lastBlinkChange (dispatch CHR ''Z'' 7 (forward power_on)) = 0"
proof -
  have h: "CHR ''Z'' \<notin> {CHR ''F'', CHR ''B'', CHR ''R'', CHR ''L'', CHR ''S'', CHR ''O'', CHR ''T''}"
    by simp
  note t = unknown_byte_reported [OF h, of 7 "forward power_on"]
  have c: "calls (dispatch CHR ''Z'' 7 (forward power_on)) =
     calls (forward power_on) @
       [Serial_println (''Unknown command '' @ [CHR 0xF0, CHR 0x9F, CHR 0x98, CHR 0x85] @
          '' (F B L R S | O T)'')]"
    using t [THEN conjunct1] by simp
  have f: "currentFace (forward power_on) = FACE_BLINK" "blinkOpen (forward power_on)"
    "lastBlinkChange (forward power_on) = 0"
    by (simp_all add: forward_def power_on_def)
  show ?thesis
    using h c f t [THEN conjunct2] motor_outputs(1,2) [of power_on] by simp
qed

text \<open>
  C6. From every state and at every time \<open>now\<close>, the command O makes the face mode
  \<open>FACE_BLINK\<close> with the eyes open, sets \<open>lastBlinkChange\<close> to \<open>now\<close> and redraws at
  once: \<^verbatim>\<open>drawFace\<close> clears, \<^verbatim>\<open>drawBlinkFace\<close> clears again, draws the two open-eye
  rectangles and flushes, and the line "Face -> Blinking" is printed. Nothing else
  changes. A second O at the same \<open>now\<close> leaves the face mode, phase and timestamp as
  the first one set them. The cycle restarts from \<open>now\<close>: a tick at \<open>t\<close> with
  \<open>t - now < 3000\<close> changes nothing; a tick with \<open>3000 \<le> t - now\<close> closes the eyes and
  stamps \<open>t\<close>, after which a tick at \<open>u\<close> changes nothing while \<open>u - t < 200\<close> and
  opens the eyes again once \<open>200 \<le> u - t\<close>.
\<close>

theorem blink_command_resets:
  "dispatch CHR ''O'' now s =
     s\<lparr>currentFace := FACE_BLINK, blinkOpen := True, lastBlinkChange := now,
       calls := calls s @
         [clearDisplay, clearDisplay,
          fillRect 30 20 20 20 SSD1306_WHITE, fillRect 80 20 20 20 SSD1306_WHITE,
          display_display,
          Serial_println (''Face '' @ [CHR 0xE2, CHR 0x86, CHR 0x92] @ '' Blinking '' @
              [CHR 0xF0, CHR 0x9F, CHR 0x91, CHR 0x80, CHR 0xE2, CHR 0x9C, CHR 0xA8])]\<rparr> \<and>
   currentFace (dispatch CHR ''O'' now s) = FACE_BLINK \<and>
   blinkOpen (dispatch CHR ''O'' now s) \<and>
   lastBlinkChange (dispatch CHR ''O'' now s) = now \<and>
   currentFace (dispatch CHR ''O'' now (dispatch CHR ''O'' now s)) =
     currentFace (dispatch CHR ''O'' now s) \<and>
   blinkOpen (dispatch CHR ''O'' now (dispatch CHR ''O'' now s)) =
     blinkOpen (dispatch CHR ''O'' now s) \<and>
   lastBlinkChange (dispatch CHR ''O'' now (dispatch CHR ''O'' now s)) =
     lastBlinkChange (dispatch CHR ''O'' now s) \<and>
   (t - now < 3000 \<longrightarrow>
      blinking_logic t (dispatch CHR ''O'' now s) = dispatch CHR ''O'' now s) \<and>
   (3000 \<le> t - now \<longrightarrow>
      \<not> blinkOpen (blinking_logic t (dispatch CHR ''O'' now s)) \<and>
      lastBlinkChange (blinking_logic t (dispatch CHR ''O'' now s)) = t \<and>
      (u - t < 200 \<longrightarrow>
         blinking_logic u (blinking_logic t (dispatch CHR ''O'' now s)) =
           blinking_logic t (dispatch CHR ''O'' now s)) \<and>
      (200 \<le> u - t \<longrightarrow>
         blinkOpen (blinking_logic u (blinking_logic t (dispatch CHR ''O'' now s))) \<and>
         lastBlinkChange (blinking_logic u (blinking_logic t (dispatch CHR ''O'' now s))) = u))"
proof -
  define b where "b = dispatch CHR ''O'' now s"
  have b: "currentFace b = FACE_BLINK" "blinkOpen b" "lastBlinkChange b = now"
    by (simp_all add: b_def dispatch_O)
  have bb: "currentFace (dispatch CHR ''O'' now b) = currentFace b"
    "blinkOpen (dispatch CHR ''O'' now b) = blinkOpen b"
    "lastBlinkChange (dispatch CHR ''O'' now b) = lastBlinkChange b"
    using b by (simp_all add: dispatch_O)
  have hold: "t - now < 3000 \<longrightarrow> blinking_logic t b = b"
    using b by (simp add: blinking_logic_hold)
  have closed: "3000 \<le> t - now \<longrightarrow>
      \<not> blinkOpen (blinking_logic t b) \<and> lastBlinkChange (blinking_logic t b) = t \<and>
      (u - t < 200 \<longrightarrow> blinking_logic u (blinking_logic t b) = blinking_logic t b) \<and>
      (200 \<le> u - t \<longrightarrow>
         blinkOpen (blinking_logic u (blinking_logic t b)) \<and>
         lastBlinkChange (blinking_logic u (blinking_logic t b)) = u)"
  proof
    assume h: "3000 \<le> t - now"
    define c where "c = blinking_logic t b"
    have c: "currentFace c = FACE_BLINK" "\<not> blinkOpen c" "lastBlinkChange c = t"
      using b h by (simp_all add: c_def blinking_logic_flip)
    have c1: "u - t < 200 \<longrightarrow> blinking_logic u c = c"
      using c by (simp add: blinking_logic_hold)
    have c2: "200 \<le> u - t \<longrightarrow>
         blinkOpen (blinking_logic u c) \<and> lastBlinkChange (blinking_logic u c) = u"
      using c by (simp add: blinking_logic_flip)
    show "\<not> blinkOpen (blinking_logic t b) \<and> lastBlinkChange (blinking_logic t b) = t \<and>
      (u - t < 200 \<longrightarrow> blinking_logic u (blinking_logic t b) = blinking_logic t b) \<and>
      (200 \<le> u - t \<longrightarrow>
         blinkOpen (blinking_logic u (blinking_logic t b)) \<and>
         lastBlinkChange (blinking_logic u (blinking_logic t b)) = u)"
      using c c1 c2 unfolding c_def by blast
  qed
  show ?thesis
    using dispatch_O [of now s] b bb hold closed unfolding b_def by blast
qed

theorem blink_command_resets_witness:
  "(3999 :: ulong) - 1000 < 3000 \<and>
   blinking_logic 3999 (dispatch CHR ''O'' 1000 (dispatch CHR ''T'' 5 power_on)) =
     dispatch CHR ''O'' 1000 (dispatch CHR ''T'' 5 power_on) \<and>
   (3000 :: ulong) \<le> 4000 - 1000 \<and>
   \<not> blinkOpen (blinking_logic 4000 (dispatch CHR ''O'' 1000 (dispatch CHR ''T'' 5 power_on))) \<and>
   lastBlinkChange (blinking_logic 4000 (dispatch CHR ''O'' 1000 (dispatch CHR ''T'' 5 power_on))) = 4000 \<and>
   (200 :: ulong) \<le> 4200 - 4000 \<and>
   blinkOpen (blinking_logic 4200 (blinking_logic 4000
     (dispatch CHR ''O'' 1000 (dispatch CHR ''T'' 5 power_on)))) \<and>
   (4199 :: ulong) - 4000 < 200 \<and>
   blinking_logic 4199 (blinking_logic 4000
     (dispatch CHR ''O'' 1000 (dispatch CHR ''T'' 5 power_on))) =
     blinking_logic 4000 (dispatch CHR ''O'' 1000 (dispatch CHR ''T'' 5 power_on))"
proof -
  let ?s = "dispatch CHR ''T'' 5 power_on"
  have h1: "(3999 :: ulong) - 1000 < 3000" and h2: "(3000 :: ulong) \<le> 4000 - 1000"
    and h3: "(200 :: ulong) \<le> 4200 - 4000" and h4: "(4199 :: ulong) - 4000 < 200"
    by simp_all
  show ?thesis
    using h1 h2 h3 h4
      blink_command_resets [of 1000 ?s 3999 4200]
      blink_command_resets [of 1000 ?s 4000 4200]
      blink_command_resets [of 1000 ?s 4000 4199]
    by blast
qed

text \<open>
  C7. Stop is absorbing and idempotent: after \<^verbatim>\<open>stopMotors()\<close>, however many further
  calls of \<^verbatim>\<open>stopMotors()\<close> follow, the left and the right side both read
  (Neutral, 0) after each of them, and the pin levels and duties are those the first
  call left.
\<close>

theorem stop_absorbing:
  "left_output ((stopMotors ^^ n) (stopMotors s)) = (Some Neutral, 0) \<and>
   right_output ((stopMotors ^^ n) (stopMotors s)) = (Some Neutral, 0) \<and>
   digital ((stopMotors ^^ n) (stopMotors s)) = digital (stopMotors s) \<and>
   pwm ((stopMotors ^^ n) (stopMotors s)) = pwm (stopMotors s)"
proof (induction n)
  case 0
  show ?case using stop_output [of s] by simp
next
  case (Suc n)
  let ?t = "(stopMotors ^^ n) (stopMotors s)"
  have d: "digital (stopMotors ?t) = digital (stopMotors s)"
    using Suc by (auto simp add: digital_stopMotors fun_eq_iff)
  have p: "pwm (stopMotors ?t) = pwm (stopMotors s)"
    using Suc by (auto simp add: pwm_stopMotors fun_eq_iff)
  show ?case using stop_output [of ?t] d p by simp
qed

text \<open>
  C8, as amended. Every redraw first clears the frame buffer, then draws fixed shapes
  for the state, then flushes: for the blinking face two rectangles of 20 by 20 (eyes
  open) or 20 by 6 (eyes closed); for the thinking face two rectangles of 16 by 16,
  which are smaller than the open eyes, and three circles of radius 4. \<^verbatim>\<open>drawFace\<close>
  clears once itself before \<^verbatim>\<open>drawBlinkFace\<close> clears again. A redraw changes nothing
  but the display.
\<close>

theorem redraw_contract:
  "drawBlinkFace True s =
     s\<lparr>calls := calls s @
        [clearDisplay,
         fillRect 30 20 20 20 SSD1306_WHITE, fillRect 80 20 20 20 SSD1306_WHITE,
         display_display]\<rparr> \<and>
   drawBlinkFace False s =
     s\<lparr>calls := calls s @
        [clearDisplay,
         fillRect 30 27 20 6 SSD1306_WHITE, fillRect 80 27 20 6 SSD1306_WHITE,
         display_display]\<rparr> \<and>
   drawFace FACE_BLINK s = drawBlinkFace (blinkOpen s) (s\<lparr>calls := calls s @ [clearDisplay]\<rparr>) \<and>
   drawFace FACE_THINK s =
     s\<lparr>calls := calls s @
        [clearDisplay,
         fillRect 30 22 16 16 SSD1306_WHITE, fillRect 82 22 16 16 SSD1306_WHITE,
         fillCircle 48 50 4 SSD1306_WHITE, fillCircle 64 50 4 SSD1306_WHITE,
         fillCircle 80 50 4 SSD1306_WHITE,
         display_display]\<rparr> \<and>
   rect_sizes (calls (drawFace FACE_THINK s)) = rect_sizes (calls s) @ [(16, 16), (16, 16)] \<and>
   rect_sizes (calls (drawBlinkFace True s)) = rect_sizes (calls s) @ [(20, 20), (20, 20)] \<and>
   rect_sizes (calls (drawBlinkFace False s)) = rect_sizes (calls s) @ [(20, 6), (20, 6)]"
  by (simp add: drawFace_eq drawBlinkFace_eq drawBlinkFace_body_def think_body_def
      rect_sizes_append)

text \<open>
  The claim as it was stated has the thinking face draw two larger eye blocks. The
  rectangles of the thinking face are 16 by 16 and those of the blinking face with open
  eyes are 20 by 20: none of the former is wider or taller than any of the latter.
\<close>

theorem thinking_eyes_larger_counterexample:
  "rect_sizes (calls (drawFace FACE_THINK power_on)) = [(16, 16), (16, 16)] \<and>
   rect_sizes (calls (drawFace FACE_BLINK power_on)) = [(20, 20), (20, 20)] \<and>
   \<not> (\<exists>(w, h) \<in> set (rect_sizes (calls (drawFace FACE_THINK power_on))).
        \<exists>(w', h') \<in> set (rect_sizes (calls (drawFace FACE_BLINK power_on))).
          w' < w \<or> h' < h)"
  by (simp add: drawFace_eq drawBlinkFace_body_def think_body_def power_on_def)

text \<open>
  C9. Motor and face state are framed from each other. The motor commands F, B, R, L, S
  leave the face mode, the blink phase and the blink timestamp unchanged and send
  nothing to the display; the face commands O and T leave every pin level and duty, so
  the direction and speed of both sides, unchanged and write no pin.
\<close>

theorem motor_face_frame:
  "(cmd \<in> {CHR ''F'', CHR ''B'', CHR ''R'', CHR ''L'', CHR ''S''} \<longrightarrow>
      currentFace (dispatch cmd now s) = currentFace s \<and>
      blinkOpen (dispatch cmd now s) = blinkOpen s \<and>
      lastBlinkChange (dispatch cmd now s) = lastBlinkChange s \<and>
      filter drives_display (calls (dispatch cmd now s)) = filter drives_display (calls s)) \<and>
   (cmd \<in> {CHR ''O'', CHR ''T''} \<longrightarrow>
      digital (dispatch cmd now s) = digital s \<and>
      pwm (dispatch cmd now s) = pwm s \<and>
      left_output (dispatch cmd now s) = left_output s \<and>
      right_output (dispatch cmd now s) = right_output s \<and>
      filter touches_pins (calls (dispatch cmd now s)) = filter touches_pins (calls s))"
proof -
  have m: "cmd \<in> {CHR ''F'', CHR ''B'', CHR ''R'', CHR ''L'', CHR ''S''} \<longrightarrow>
      currentFace (dispatch cmd now s) = currentFace s \<and>
      blinkOpen (dispatch cmd now s) = blinkOpen s \<and>
      lastBlinkChange (dispatch cmd now s) = lastBlinkChange s \<and>
      filter drives_display (calls (dispatch cmd now s)) = filter drives_display (calls s)"
    by (auto simp add: dispatch_def forward_def backward_def leftTurn_def rightTurn_def
        stopMotors_def forward_body_def backward_body_def leftTurn_body_def rightTurn_body_def
        stopMotors_body_def)
  have f: "cmd \<in> {CHR ''O'', CHR ''T''} \<longrightarrow>
      digital (dispatch cmd now s) = digital s \<and>
      pwm (dispatch cmd now s) = pwm s \<and>
      left_output (dispatch cmd now s) = left_output s \<and>
      right_output (dispatch cmd now s) = right_output s \<and>
      filter touches_pins (calls (dispatch cmd now s)) = filter touches_pins (calls s)"
    by (auto simp add: dispatch_O dispatch_T left_output_def right_output_def)
  from m f show ?thesis by blast
qed

theorem motor_face_frame_witness:
  "CHR ''F'' \<in> {CHR ''F'', CHR ''B'', CHR ''R'', CHR ''L'', CHR ''S''} \<and>
   currentFace (dispatch CHR ''F'' 5 (dispatch CHR ''T'' 4 power_on)) = FACE_THINK \<and>
   blinkOpen (dispatch CHR ''F'' 5 (dispatch CHR ''T'' 4 power_on)) \<and>
   lastBlinkChange (dispatch CHR ''F'' 5 (dispatch CHR ''T'' 4 power_on)) = 0 \<and>
   CHR ''O'' \<in> {CHR ''O'', CHR ''T''} \<and>
   left_output (dispatch CHR ''O'' 9 (backward power_on)) = (Some Reverse, 200) \<and>
   right_output (dispatch CHR ''O'' 9 (backward power_on)) = (Some Reverse, 200)"
  using motor_face_frame [of "CHR ''F''" 5 "dispatch CHR ''T'' 4 power_on"]
    motor_face_frame [of "CHR ''O''" 9 "backward power_on"]
    motor_outputs(3,4) [of power_on]
  by (simp add: dispatch_T power_on_def)

text \<open>
  C10, as amended. Whenever a motor function has returned, the two direction pins of
  each side are (HIGH, LOW), (LOW, HIGH) or (LOW, LOW), never both high, so each side
  reads Forward, Reverse or Neutral. This holds in every state the sketch reaches
  between iterations, after a successful startup and any iterations with any bytes and
  clock readings, and after any sequence of calls of the five motor functions from
  there.
\<close>

theorem direction_pins_wellformed:
  assumes "sketch True now iters s0 = Some s"
    and "set fs \<subseteq> {forward, backward, leftTurn, rightTurn, stopMotors}"
  shows "pins_wellformed (fold (\<lambda>f. f) fs s) \<and>
    \<not> (digital (fold (\<lambda>f. f) fs s) IN1 = HIGH \<and> digital (fold (\<lambda>f. f) fs s) IN2 = HIGH) \<and>
    \<not> (digital (fold (\<lambda>f. f) fs s) IN3 = HIGH \<and> digital (fold (\<lambda>f. f) fs s) IN4 = HIGH) \<and>
    fst (left_output (fold (\<lambda>f. f) fs s)) \<in> {Some Forward, Some Reverse, Some Neutral} \<and>
    fst (right_output (fold (\<lambda>f. f) fs s)) \<in> {Some Forward, Some Reverse, Some Neutral}"
proof -
  have w: "pins_wellformed (fold (\<lambda>f. f) fs s)"
    using assms by (simp add: fold_motor_wellformed sketch_wellformed)
  then have "\<not> (digital (fold (\<lambda>f. f) fs s) IN1 = HIGH \<and> digital (fold (\<lambda>f. f) fs s) IN2 = HIGH)"
    "\<not> (digital (fold (\<lambda>f. f) fs s) IN3 = HIGH \<and> digital (fold (\<lambda>f. f) fs s) IN4 = HIGH)"
    by (auto simp add: pins_wellformed_def pair_ok_def)
  with w wellformed_direction [OF w] show ?thesis by blast
qed

theorem direction_pins_wellformed_witness:
  "pins_wellformed
     (fold (\<lambda>f. f) [backward, forward, leftTurn]
        (iterate [(''FB'', 0, 0), ([], 10, 10)] (the (returned (setup_sketch True 0 power_on))))) \<and>
   fst (left_output
     (fold (\<lambda>f. f) [backward, forward, leftTurn]
        (iterate [(''FB'', 0, 0), ([], 10, 10)] (the (returned (setup_sketch True 0 power_on)))))) = Some Reverse"
proof -
  have h: "set [backward, forward, leftTurn] \<subseteq> {forward, backward, leftTurn, rightTurn, stopMotors}"
    by simp
  have l: "fst (left_output (fold (\<lambda>f. f) [backward, forward, leftTurn]
        (iterate [(''FB'', 0, 0), ([], 10, 10)] (the (returned (setup_sketch True 0 power_on)))))) = Some Reverse"
    by (simp add: motor_outputs)
  show ?thesis
    using direction_pins_wellformed
        [OF sketch_began [of 0 "[(''FB'', 0, 0), ([], 10, 10)]" power_on] h] l
    by blast
qed

text \<open>
  The claim as it was stated has the two pins of a side never high at the same time.
  Inside a motor function they can be. After the command F, \<^verbatim>\<open>backward()\<close> has left
  \<open>IN1\<close> low and \<open>IN2\<close> high. \<^verbatim>\<open>forward()\<close>, which the command B runs, writes
  \<open>IN1\<close> high at line 148 and \<open>IN2\<close> low only at line 149: of the eight states it
  passes through, the fifth has both pins high.
\<close>

theorem both_pins_high_counterexample:
  "map_option (\<lambda>s. map (\<lambda>s'. (digital s' IN1, digital s' IN2)) (during forward_body s))
     (sketch True 0 [(''F'', 0, 0)] power_on) =
   Some [(LOW, HIGH), (LOW, HIGH), (LOW, HIGH), (LOW, HIGH),
         (HIGH, HIGH), (HIGH, LOW), (HIGH, LOW), (HIGH, LOW)]"
proof -
  define s where "s = iterate [(''F'', 0, 0)] (the (returned (setup_sketch True 0 power_on)))"
  have sk: "sketch True 0 [(''F'', 0, 0)] power_on = Some s"
    by (simp add: s_def sketch_began)
  have rx0: "rx (setup_motors power_on) = []"
    by (simp add: setup_motors_def stopMotors_def power_on_def)
  have d: "digital s = (digital (setup_motors power_on))(IN1 := LOW, IN2 := HIGH, IN3 := LOW, IN4 := HIGH)"
    by (simp add: s_def setup_sketch_began loop_def handle_serial_def dispatch_def rx0
        digital_blinking_logic digital_backward)
  have "map (\<lambda>s'. (digital s' IN1, digital s' IN2)) (during forward_body s) =
     [(LOW, HIGH), (LOW, HIGH), (LOW, HIGH), (LOW, HIGH),
      (HIGH, HIGH), (HIGH, LOW), (HIGH, LOW), (HIGH, LOW)]"
    by (simp add: during_def forward_body_def d pin_defs)
  with sk show ?thesis by simp
qed

end
